theory Spec2Isabelle
  imports Complex_Main
begin

section \<open>Data model of the room synchronisation server\<close>

text \<open>
  The server keeps one room object per room identifier in a process-wide \<open>Map\<close>.
  Playback positions are only stored and forwarded by the server, never computed with,
  and are kept as reals. Indices and \<open>Date.now()\<close> readings (epoch milliseconds) are
  integer-valued JavaScript numbers and are kept as integers; the one computation the
  server makes on an index, \<open>currentVideoIndex++\<close>, is double arithmetic and is
  modelled as such (\<open>js_increment\<close>). Identifiers are strings.
\<close>

type_synonym room_id = string
type_synonym socket_id = string

record participant =
  p_id :: string
  p_name :: string
  isHost :: bool
  isMuted :: bool
  isCameraOff :: bool

record queue_item =
  q_id :: string
  videoId :: string
  title :: string
  thumbnail :: string
  addedBy :: string
  duration :: "string option"

record chat_message =
  m_id :: string
  senderId :: string
  senderName :: string
  content :: string
  timestamp :: int
  isSystem :: "bool option"

datatype player_state = Unstarted | Playing | Paused | Buffering | Ended

text \<open>
  \<open>votes\<close> is a JavaScript \<open>Set\<close>: a duplicate-free collection that iterates in
  insertion order. It is kept as the list \<open>Array.from\<close> would produce; its \<open>size\<close>
  is the length of that list.
\<close>

record room =
  participants :: "participant list"
  queue :: "queue_item list"
  messages :: "chat_message list"
  votes :: "string list"
  currentVideoIndex :: int
  playerState :: player_state
  currentTime :: real

text \<open>\<open>Partial<Participant>\<close>: the fields present in an update.\<close>

record participant_updates =
  u_id :: "string option"
  u_name :: "string option"
  u_isHost :: "bool option"
  u_isMuted :: "bool option"
  u_isCameraOff :: "bool option"

record player_sync =
  action :: string
  videoTime :: real
  serverTime :: int
  initiator :: string

record room_snapshot =
  s_participants :: "participant list"
  s_queue :: "queue_item list"
  s_messages :: "chat_message list"
  s_votes :: "string list"
  s_currentVideoIndex :: int
  s_playerState :: player_state
  s_currentTime :: real

datatype payload =
    RoomJoined room_snapshot
  | ParticipantJoined participant
  | ParticipantLeft socket_id
  | ParticipantUpdated socket_id participant_updates
  | PlayerSync player_sync
  | QueueUpdated "queue_item list"
  | VideoChanged int
  | ChatMessage chat_message
  | VotesUpdated "string list"

text \<open>
  The three ways the server addresses an outbound event: \<open>socket.emit\<close>,
  \<open>io.to(roomId).emit\<close> and \<open>socket.to(roomId).emit\<close>.
\<close>

datatype target =
    ToSender socket_id
  | ToRoom room_id
  | ToOthers socket_id room_id

datatype emit = Emit target payload

text \<open>
  The server state: the room registry, the \<open>currentRoomId\<close> variable of each
  connection's closure (\<open>null\<close> is \<open>None\<close>), and the transport's record of which
  sockets have joined which broadcast room (\<open>socket.join\<close>, \<open>socket.leave\<close>).
\<close>

record server =
  rooms :: "room_id \<rightharpoonup> room"
  currentRoomId :: "socket_id \<Rightarrow> room_id option"
  joined :: "room_id \<Rightarrow> socket_id set"

definition recipients :: "(room_id \<Rightarrow> socket_id set) \<Rightarrow> target \<Rightarrow> socket_id set" where
  "recipients j t =
     (case t of
        ToSender sid \<Rightarrow> {sid}
      | ToRoom rid \<Rightarrow> j rid
      | ToOthers sid rid \<Rightarrow> j rid - {sid})"

section \<open>The registry\<close>

definition new_room :: room where
  "new_room = \<lparr> participants = [], queue = [], messages = [], votes = [],
                currentVideoIndex = 0, playerState = Paused, currentTime = 0 \<rparr>"

definition getRoom :: "room_id \<Rightarrow> (room_id \<rightharpoonup> room) \<Rightarrow> room \<times> (room_id \<rightharpoonup> room)" where
  "getRoom roomId rs =
     (case rs roomId of
        Some r \<Rightarrow> (r, rs)
      | None \<Rightarrow> (new_room, rs(roomId \<mapsto> new_room)))"

definition init_server :: server where
  "init_server = \<lparr> rooms = Map.empty, currentRoomId = (\<lambda>_. None), joined = (\<lambda>_. {}) \<rparr>"

text \<open>The room a handler would obtain from \<open>getRoom\<close> in a given server state.\<close>

definition room_of :: "server \<Rightarrow> room_id \<Rightarrow> room" where
  "room_of st roomId = fst (getRoom roomId (rooms st))"

section \<open>JavaScript helpers\<close>

text \<open>\<open>Array.prototype.findIndex\<close>: the first index that satisfies the test, or \<open>-1\<close>.\<close>

fun findIndex_from :: "('a \<Rightarrow> bool) \<Rightarrow> 'a list \<Rightarrow> nat \<Rightarrow> int" where
  "findIndex_from P [] i = - 1"
| "findIndex_from P (x # xs) i = (if P x then int i else findIndex_from P xs (Suc i))"

definition findIndex :: "('a \<Rightarrow> bool) \<Rightarrow> 'a list \<Rightarrow> int" where
  "findIndex P xs = findIndex_from P xs 0"

text \<open>
  \<open>x++\<close> on an integer-valued number: the exact sum, rounded to the nearest double, ties
  to the even significand. A double has 53 significant bits, so the rounding drops the
  low bits of the magnitude beyond the 53rd; \<open>drop_count\<close> counts them.
\<close>

function drop_count :: "nat \<Rightarrow> nat" where
  "drop_count a = (if a < 2 ^ 53 then 0 else Suc (drop_count (a div 2)))"
  by pat_completeness auto
termination
  by (relation "measure (\<lambda>a. a)") auto

declare drop_count.simps [simp del]

definition round_double_nat :: "nat \<Rightarrow> nat" where
  "round_double_nat a =
     (let e = drop_count a; q = a div 2 ^ e; r = a mod 2 ^ e
      in if 2 * r < 2 ^ e \<or> (2 * r = 2 ^ e \<and> even q) then q * 2 ^ e else (q + 1) * 2 ^ e)"

definition round_double_int :: "int \<Rightarrow> int" where
  "round_double_int n =
     (if n < 0 then - int (round_double_nat (nat (- n))) else int (round_double_nat (nat n)))"

definition js_increment :: "int \<Rightarrow> int" where
  "js_increment i = round_double_int (i + 1)"

text \<open>\<open>Set.prototype.add\<close> on the insertion-ordered representation.\<close>

definition votes_add :: "string \<Rightarrow> string list \<Rightarrow> string list" where
  "votes_add v vs = (if v \<in> set vs then vs else vs @ [v])"

text \<open>Truthiness of an optional string: \<open>undefined\<close>, \<open>null\<close> and \<open>''\<close> are falsy.\<close>

fun truthy :: "string option \<Rightarrow> bool" where
  "truthy None = False"
| "truthy (Some s) = (s \<noteq> [])"

text \<open>\<open>Object.assign(participant, updates)\<close>.\<close>

definition assign_updates :: "participant \<Rightarrow> participant_updates \<Rightarrow> participant" where
  "assign_updates p u =
     \<lparr> p_id = (case u_id u of Some v \<Rightarrow> v | None \<Rightarrow> p_id p),
       p_name = (case u_name u of Some v \<Rightarrow> v | None \<Rightarrow> p_name p),
       isHost = (case u_isHost u of Some v \<Rightarrow> v | None \<Rightarrow> isHost p),
       isMuted = (case u_isMuted u of Some v \<Rightarrow> v | None \<Rightarrow> isMuted p),
       isCameraOff = (case u_isCameraOff u of Some v \<Rightarrow> v | None \<Rightarrow> isCameraOff p) \<rparr>"

section \<open>Event handlers of the server\<close>

subsection \<open>\<open>room:join\<close>\<close>

definition join_participants :: "participant \<Rightarrow> participant list \<Rightarrow> participant list" where
  "join_participants p ps =
     (let existingIndex = findIndex (\<lambda>q. p_id q = p_id p) ps
      in if existingIndex \<ge> 0 then ps[nat existingIndex := p] else ps @ [p])"

definition snapshot :: "room \<Rightarrow> room_snapshot" where
  "snapshot r =
     \<lparr> s_participants = participants r, s_queue = queue r, s_messages = messages r,
       s_votes = votes r, s_currentVideoIndex = currentVideoIndex r,
       s_playerState = playerState r, s_currentTime = currentTime r \<rparr>"

definition on_room_join :: "socket_id \<Rightarrow> room_id \<Rightarrow> participant \<Rightarrow> server \<Rightarrow> server \<times> emit list" where
  "on_room_join sid roomId p st =
     (let (r, rs) = getRoom roomId (rooms st);
          r' = r\<lparr>participants := join_participants p (participants r)\<rparr>
      in (st\<lparr>rooms := rs(roomId \<mapsto> r'),
               currentRoomId := (currentRoomId st)(sid := Some roomId),
               joined := (joined st)(roomId := insert sid (joined st roomId))\<rparr>,
          [Emit (ToSender sid) (RoomJoined (snapshot r')),
           Emit (ToOthers sid roomId) (ParticipantJoined p)]))"

subsection \<open>\<open>room:leave\<close> and \<open>disconnect\<close>\<close>

definition remove_participant :: "socket_id \<Rightarrow> participant list \<Rightarrow> participant list" where
  "remove_participant sid ps = filter (\<lambda>p. p_id p \<noteq> sid) ps"

text \<open>
  The handler ignores the room identifier of its payload and uses the connection's
  \<open>currentRoomId\<close>; it does nothing when that is falsy.
\<close>

definition on_room_leave :: "socket_id \<Rightarrow> room_id \<Rightarrow> server \<Rightarrow> server \<times> emit list" where
  "on_room_leave sid roomId st =
     (if truthy (currentRoomId st sid) then
        (let cur = the (currentRoomId st sid);
             (r, rs) = getRoom cur (rooms st);
             r' = r\<lparr>participants := remove_participant sid (participants r)\<rparr>
         in (st\<lparr>rooms := rs(cur \<mapsto> r'),
                  currentRoomId := (currentRoomId st)(sid := None),
                  joined := (joined st)(cur := joined st cur - {sid})\<rparr>,
             [Emit (ToOthers sid cur) (ParticipantLeft sid)]))
      else (st, []))"

text \<open>
  When \<open>disconnect\<close> fires the transport has already taken the socket out of every
  broadcast room.
\<close>

definition on_disconnect :: "socket_id \<Rightarrow> server \<Rightarrow> server \<times> emit list" where
  "on_disconnect sid st =
     (let st0 = st\<lparr>joined := (\<lambda>rid. joined st rid - {sid})\<rparr>
      in if truthy (currentRoomId st sid) then
           (let cur = the (currentRoomId st sid);
                (r, rs) = getRoom cur (rooms st);
                r' = r\<lparr>participants := remove_participant sid (participants r)\<rparr>
            in (st0\<lparr>rooms := rs(cur \<mapsto> r')\<rparr>,
                [Emit (ToOthers sid cur) (ParticipantLeft sid)]))
         else (st0, []))"

subsection \<open>\<open>participant:update\<close>\<close>

fun update_first :: "socket_id \<Rightarrow> participant_updates \<Rightarrow> participant list \<Rightarrow> participant list" where
  "update_first sid u [] = []"
| "update_first sid u (p # ps) =
     (if p_id p = sid then assign_updates p u # ps else p # update_first sid u ps)"

definition on_participant_update ::
  "socket_id \<Rightarrow> room_id \<Rightarrow> participant_updates \<Rightarrow> server \<Rightarrow> server \<times> emit list" where
  "on_participant_update sid roomId u st =
     (let (r, rs) = getRoom roomId (rooms st)
      in case find (\<lambda>p. p_id p = sid) (participants r) of
           Some _ \<Rightarrow>
             (st\<lparr>rooms := rs(roomId \<mapsto> r\<lparr>participants := update_first sid u (participants r)\<rparr>)\<rparr>,
              [Emit (ToRoom roomId) (ParticipantUpdated sid u)])
         | None \<Rightarrow> (st\<lparr>rooms := rs\<rparr>, []))"

subsection \<open>\<open>player:action\<close>\<close>

definition on_player_action ::
  "socket_id \<Rightarrow> room_id \<Rightarrow> string \<Rightarrow> real \<Rightarrow> int \<Rightarrow> server \<Rightarrow> server \<times> emit list" where
  "on_player_action sid roomId act vt now st =
     (let (r, rs) = getRoom roomId (rooms st);
          r1 = (if act = ''play'' then r\<lparr>playerState := Playing\<rparr>
                else if act = ''pause'' then r\<lparr>playerState := Paused\<rparr>
                else r);
          r2 = r1\<lparr>currentTime := vt\<rparr>
      in (st\<lparr>rooms := rs(roomId \<mapsto> r2)\<rparr>,
          [Emit (ToRoom roomId)
             (PlayerSync \<lparr> action = act, videoTime = vt, serverTime = now, initiator = sid \<rparr>)]))"

subsection \<open>Queue events\<close>

definition on_queue_add :: "room_id \<Rightarrow> queue_item \<Rightarrow> server \<Rightarrow> server \<times> emit list" where
  "on_queue_add roomId item st =
     (let (r, rs) = getRoom roomId (rooms st);
          r' = r\<lparr>queue := queue r @ [item]\<rparr>
      in (st\<lparr>rooms := rs(roomId \<mapsto> r')\<rparr>, [Emit (ToRoom roomId) (QueueUpdated (queue r'))]))"

definition on_queue_remove :: "room_id \<Rightarrow> string \<Rightarrow> server \<Rightarrow> server \<times> emit list" where
  "on_queue_remove roomId itemId st =
     (let (r, rs) = getRoom roomId (rooms st);
          r' = r\<lparr>queue := filter (\<lambda>item. q_id item \<noteq> itemId) (queue r)\<rparr>
      in (st\<lparr>rooms := rs(roomId \<mapsto> r')\<rparr>, [Emit (ToRoom roomId) (QueueUpdated (queue r'))]))"

definition on_queue_change_video :: "room_id \<Rightarrow> int \<Rightarrow> server \<Rightarrow> server \<times> emit list" where
  "on_queue_change_video roomId index st =
     (let (r, rs) = getRoom roomId (rooms st);
          r' = r\<lparr>currentVideoIndex := index, currentTime := 0\<rparr>
      in (st\<lparr>rooms := rs(roomId \<mapsto> r')\<rparr>, [Emit (ToRoom roomId) (VideoChanged index)]))"

subsection \<open>\<open>chat:send\<close>\<close>

text \<open>\<open>push\<close>, then one \<open>shift\<close> if the length exceeds 100.\<close>

definition push_message :: "chat_message \<Rightarrow> chat_message list \<Rightarrow> chat_message list" where
  "push_message m ms =
     (let ms1 = ms @ [m]
      in if length ms1 > 100 then tl ms1 else ms1)"

definition on_chat_send :: "room_id \<Rightarrow> chat_message \<Rightarrow> server \<Rightarrow> server \<times> emit list" where
  "on_chat_send roomId m st =
     (let (r, rs) = getRoom roomId (rooms st);
          r' = r\<lparr>messages := push_message m (messages r)\<rparr>
      in (st\<lparr>rooms := rs(roomId \<mapsto> r')\<rparr>, [Emit (ToRoom roomId) (ChatMessage m)]))"

subsection \<open>\<open>vote:next\<close>\<close>

text \<open>
  The part of the handler after the falsy-identifier guard, on the room object.
  \<open>room.queue.length - 1\<close> is \<open>-1\<close> on an empty queue, so the comparison is on
  integers; it is exact in double arithmetic. The increment is not.
\<close>

definition vote_next_room :: "room_id \<Rightarrow> string \<Rightarrow> int \<Rightarrow> room \<Rightarrow> room \<times> emit list" where
  "vote_next_room roomId participantId now r =
     (let r1 = r\<lparr>votes := votes_add participantId (votes r)\<rparr>;
          e1 = [Emit (ToRoom roomId) (VotesUpdated (votes r1))]
      in if length (votes r1) \<ge> length (participants r1) then
           (if currentVideoIndex r1 < int (length (queue r1)) - 1 then
              (let r2 = r1\<lparr>currentVideoIndex := js_increment (currentVideoIndex r1),
                           currentTime := 0, playerState := Playing, votes := []\<rparr>
               in (r2, e1 @
                     [Emit (ToRoom roomId) (VideoChanged (currentVideoIndex r2)),
                      Emit (ToRoom roomId) (VotesUpdated []),
                      Emit (ToRoom roomId)
                        (PlayerSync \<lparr> action = ''play'', videoTime = 0, serverTime = now,
                                      initiator = ''system'' \<rparr>)]))
            else (r1\<lparr>votes := []\<rparr>, e1 @ [Emit (ToRoom roomId) (VotesUpdated [])]))
         else (r1, e1))"

definition on_vote_next :: "room_id \<Rightarrow> string option \<Rightarrow> int \<Rightarrow> server \<Rightarrow> server \<times> emit list" where
  "on_vote_next roomId participantId now st =
     (let (r, rs) = getRoom roomId (rooms st)
      in if \<not> truthy participantId then (st\<lparr>rooms := rs\<rparr>, [])
         else (let (r', es) = vote_next_room roomId (the participantId) now r
               in (st\<lparr>rooms := rs(roomId \<mapsto> r')\<rparr>, es)))"

section \<open>Inbound events and runs of the server\<close>

text \<open>
  One inbound event, with the socket that sent it and, where the handler reads the
  clock, the value \<open>Date.now()\<close> returns.
\<close>

datatype inbound =
    RoomJoin socket_id room_id participant
  | RoomLeave socket_id room_id
  | ParticipantUpdate socket_id room_id participant_updates
  | PlayerAction socket_id room_id string real int
  | QueueAdd room_id queue_item
  | QueueRemove room_id string
  | QueueChangeVideo room_id int
  | ChatSend room_id chat_message
  | VoteNext room_id "string option" int
  | Disconnect socket_id

fun handle :: "inbound \<Rightarrow> server \<Rightarrow> server \<times> emit list" where
  "handle (RoomJoin sid roomId p) st = on_room_join sid roomId p st"
| "handle (RoomLeave sid roomId) st = on_room_leave sid roomId st"
| "handle (ParticipantUpdate sid roomId u) st = on_participant_update sid roomId u st"
| "handle (PlayerAction sid roomId act vt now) st = on_player_action sid roomId act vt now st"
| "handle (QueueAdd roomId item) st = on_queue_add roomId item st"
| "handle (QueueRemove roomId itemId) st = on_queue_remove roomId itemId st"
| "handle (QueueChangeVideo roomId index) st = on_queue_change_video roomId index st"
| "handle (ChatSend roomId m) st = on_chat_send roomId m st"
| "handle (VoteNext roomId participantId now) st = on_vote_next roomId participantId now st"
| "handle (Disconnect sid) st = on_disconnect sid st"

text \<open>The event loop handles one event at a time; \<open>run\<close> keeps the final state.\<close>

fun run :: "inbound list \<Rightarrow> server \<Rightarrow> server" where
  "run [] st = st"
| "run (e # es) st = run es (fst (handle e st))"

section \<open>Client-side reconciliation of a sync event\<close>

text \<open>
  The callback computes with JavaScript numbers: every subtraction, division and addition
  is rounded to a double, and the operands may be any number the transport decodes. The
  arithmetic of the runtime is therefore a parameter of the model: the operations the
  callback uses, and the numeric literals it writes.
\<close>

record 'n js_arith =
  num_sub :: "'n \<Rightarrow> 'n \<Rightarrow> 'n"
  num_add :: "'n \<Rightarrow> 'n \<Rightarrow> 'n"
  num_div :: "'n \<Rightarrow> 'n \<Rightarrow> 'n"
  num_abs :: "'n \<Rightarrow> 'n"
  num_gt :: "'n \<Rightarrow> 'n \<Rightarrow> bool"
  num_lit :: "int \<Rightarrow> 'n"

text \<open>The payload of \<open>player:sync\<close> as the client receives it.\<close>

record 'n received_sync =
  r_action :: string
  r_videoTime :: 'n
  r_serverTime :: 'n
  r_initiator :: string

text \<open>
  The callback the player component subscribes to \<open>player:sync\<close>. \<open>ready\<close> stands for
  \<open>player && isReady\<close>, \<open>now\<close> for the client's \<open>Date.now()\<close> and \<open>currentPlayerTime\<close>
  for \<open>player.getCurrentTime()\<close>. The result lists the calls made on the player and
  the actions dispatched to the store, in order.
\<close>

datatype 'n player_call = SeekTo 'n bool | PlayVideo | PauseVideo

datatype store_action = SET_PLAYER_STATE player_state

definition onPlayerSync ::
  "'n js_arith \<Rightarrow> bool \<Rightarrow> 'n \<Rightarrow> 'n \<Rightarrow> 'n received_sync \<Rightarrow> 'n player_call list \<times> store_action list" where
  "onPlayerSync ar ready now currentPlayerTime data =
     (if \<not> ready then ([], [])
      else
        (let latency = num_div ar (num_sub ar now (r_serverTime data)) (num_lit ar 1000);
             targetTime = num_add ar (r_videoTime data) latency;
             seeks = (if r_action data = ''seek''
                         \<or> num_gt ar (num_abs ar (num_sub ar currentPlayerTime targetTime)) (num_lit ar 1)
                      then [SeekTo targetTime True] else [])
         in if r_action data = ''play'' then (seeks @ [PlayVideo], [SET_PLAYER_STATE Playing])
            else if r_action data = ''pause'' then (seeks @ [PauseVideo], [SET_PLAYER_STATE Paused])
            else (seeks, [])))"

text \<open>
  Arithmetic without rounding. The runtime's arithmetic agrees with it wherever the
  operands and the exact result are doubles, as they are for integers of small magnitude.
\<close>

definition exact_arith :: "real js_arith" where
  "exact_arith =
     \<lparr> num_sub = (\<lambda>a b. a - b), num_add = (\<lambda>a b. a + b), num_div = (\<lambda>a b. a / b),
       num_abs = (\<lambda>a. \<bar>a\<bar>), num_gt = (\<lambda>a b. a > b), num_lit = real_of_int \<rparr>"

section \<open>Concrete scenarios\<close>

definition alice :: participant where
  "alice = \<lparr> p_id = ''s1'', p_name = ''Alice'', isHost = True, isMuted = False, isCameraOff = False \<rparr>"

definition bob :: participant where
  "bob = \<lparr> p_id = ''s2'', p_name = ''Bob'', isHost = False, isMuted = False, isCameraOff = False \<rparr>"

definition carol :: participant where
  "carol = \<lparr> p_id = ''s3'', p_name = ''Carol'', isHost = False, isMuted = True, isCameraOff = False \<rparr>"

text \<open>Alice joining a second time, under another display name.\<close>

definition alice_again :: participant where
  "alice_again = \<lparr> p_id = ''s1'', p_name = ''Alice B'', isHost = True, isMuted = False, isCameraOff = True \<rparr>"

definition video :: "string \<Rightarrow> queue_item" where
  "video i = \<lparr> q_id = i, videoId = i, title = i, thumbnail = [], addedBy = ''Alice'', duration = None \<rparr>"

definition msg :: "string \<Rightarrow> chat_message" where
  "msg i = \<lparr> m_id = i, senderId = ''s1'', senderName = ''Alice'', content = i, timestamp = 0,
             isSystem = None \<rparr>"

text \<open>Room \<open>r\<close> after Alice (socket \<open>s1\<close>) and Bob (socket \<open>s2\<close>) have joined.\<close>

definition two_members :: server where
  "two_members = run [RoomJoin ''s1'' ''r'' alice, RoomJoin ''s2'' ''r'' bob] init_server"

text \<open>
  A participant whose id is not the id of the socket it joins through (the client draws
  participant ids at random), joining the same room through socket \<open>s4\<close>.
\<close>

definition dave :: participant where
  "dave = \<lparr> p_id = ''u4'', p_name = ''Dave'', isHost = False, isMuted = False, isCameraOff = False \<rparr>"

definition with_dave :: server where
  "with_dave = run [RoomJoin ''s4'' ''r'' dave] two_members"

text \<open>The same room with a queue of two videos.\<close>

definition two_videos :: server where
  "two_videos = run [QueueAdd ''r'' (video ''v1''), QueueAdd ''r'' (video ''v2'')] two_members"

text \<open>The same room, now playing the last video of the queue.\<close>

definition at_last_video :: server where
  "at_last_video = run [QueueChangeVideo ''r'' 1] two_videos"

text \<open>
  The room with two videos after the index has been set, through the change-video event,
  to the double \<open>-(2^53 + 2)\<close>, and Alice has voted.
\<close>

definition far_below :: server where
  "far_below =
     run [QueueChangeVideo ''r'' (- 9007199254740994), VoteNext ''r'' (Some ''s1'') 5] two_videos"

text \<open>A room whose chat log is full: one hundred copies of one message.\<close>

definition full_chat :: server where
  "full_chat = init_server\<lparr>rooms := [''r'' \<mapsto> new_room\<lparr>messages := replicate 100 (msg ''old'')\<rparr>]\<rparr>"

section \<open>What each handler does to the room a later handler will see\<close>

lemma fst_getRoom: "fst (getRoom roomId rs) = (case rs roomId of Some r \<Rightarrow> r | None \<Rightarrow> new_room)"
  by (simp add: getRoom_def split: option.splits)

lemma snd_getRoom_same: "(snd (getRoom roomId rs))(roomId \<mapsto> r) = rs(roomId \<mapsto> r)"
  by (simp add: getRoom_def split: option.splits)

lemma room_of_on_room_join:
  "room_of (fst (on_room_join sid roomId p st)) rid' =
     (if rid' = roomId
      then (room_of st roomId)\<lparr>participants := join_participants p (participants (room_of st roomId))\<rparr>
      else room_of st rid')"
  by (simp add: on_room_join_def room_of_def fst_getRoom snd_getRoom_same split_beta Let_def)

lemma room_of_on_room_leave:
  "room_of (fst (on_room_leave sid roomId st)) rid' =
     (if truthy (currentRoomId st sid) \<and> rid' = the (currentRoomId st sid)
      then (room_of st rid')\<lparr>participants := remove_participant sid (participants (room_of st rid'))\<rparr>
      else room_of st rid')"
  by (simp add: on_room_leave_def room_of_def fst_getRoom snd_getRoom_same split_beta Let_def)

lemma room_of_on_disconnect:
  "room_of (fst (on_disconnect sid st)) rid' =
     (if truthy (currentRoomId st sid) \<and> rid' = the (currentRoomId st sid)
      then (room_of st rid')\<lparr>participants := remove_participant sid (participants (room_of st rid'))\<rparr>
      else room_of st rid')"
  by (simp add: on_disconnect_def room_of_def fst_getRoom snd_getRoom_same split_beta Let_def)

lemma room_of_on_participant_update:
  "room_of (fst (on_participant_update sid roomId u st)) rid' =
     (if rid' = roomId \<and> find (\<lambda>p. p_id p = sid) (participants (room_of st roomId)) \<noteq> None
      then (room_of st roomId)\<lparr>participants := update_first sid u (participants (room_of st roomId))\<rparr>
      else room_of st rid')"
  by (auto simp add: on_participant_update_def room_of_def fst_getRoom snd_getRoom_same split_beta Let_def
      getRoom_def split: option.splits)

lemma room_of_on_player_action:
  "room_of (fst (on_player_action sid roomId act vt now st)) rid' =
     (if rid' = roomId
      then (if act = ''play'' then (room_of st roomId)\<lparr>playerState := Playing, currentTime := vt\<rparr>
            else if act = ''pause'' then (room_of st roomId)\<lparr>playerState := Paused, currentTime := vt\<rparr>
            else (room_of st roomId)\<lparr>currentTime := vt\<rparr>)
      else room_of st rid')"
  by (simp add: on_player_action_def room_of_def fst_getRoom snd_getRoom_same split_beta Let_def)

lemma room_of_on_queue_add:
  "room_of (fst (on_queue_add roomId item st)) rid' =
     (if rid' = roomId then (room_of st roomId)\<lparr>queue := queue (room_of st roomId) @ [item]\<rparr>
      else room_of st rid')"
  by (simp add: on_queue_add_def room_of_def fst_getRoom snd_getRoom_same split_beta Let_def)

lemma room_of_on_queue_remove:
  "room_of (fst (on_queue_remove roomId itemId st)) rid' =
     (if rid' = roomId
      then (room_of st roomId)\<lparr>queue := filter (\<lambda>item. q_id item \<noteq> itemId) (queue (room_of st roomId))\<rparr>
      else room_of st rid')"
  by (simp add: on_queue_remove_def room_of_def fst_getRoom snd_getRoom_same split_beta Let_def)

lemma room_of_on_queue_change_video:
  "room_of (fst (on_queue_change_video roomId index st)) rid' =
     (if rid' = roomId then (room_of st roomId)\<lparr>currentVideoIndex := index, currentTime := 0\<rparr>
      else room_of st rid')"
  by (simp add: on_queue_change_video_def room_of_def fst_getRoom snd_getRoom_same split_beta Let_def)

lemma room_of_on_chat_send:
  "room_of (fst (on_chat_send roomId m st)) rid' =
     (if rid' = roomId
      then (room_of st roomId)\<lparr>messages := push_message m (messages (room_of st roomId))\<rparr>
      else room_of st rid')"
  by (simp add: on_chat_send_def room_of_def fst_getRoom snd_getRoom_same split_beta Let_def)

lemma room_of_on_vote_next:
  "room_of (fst (on_vote_next roomId participantId now st)) rid' =
     (if rid' = roomId \<and> truthy participantId
      then fst (vote_next_room roomId (the participantId) now (room_of st roomId))
      else room_of st rid')"
  by (auto simp add: on_vote_next_def room_of_def fst_getRoom snd_getRoom_same split_beta Let_def
      getRoom_def split: option.splits)

lemma snd_on_vote_next:
  "snd (on_vote_next roomId participantId now st) =
     (if truthy participantId
      then snd (vote_next_room roomId (the participantId) now (room_of st roomId))
      else [])"
  by (simp add: on_vote_next_def room_of_def split_beta Let_def)

section \<open>Facts about the scenarios\<close>

lemmas room_of_handlers = room_of_on_room_join room_of_on_room_leave room_of_on_disconnect
  room_of_on_participant_update room_of_on_player_action room_of_on_queue_add
  room_of_on_queue_remove room_of_on_queue_change_video room_of_on_chat_send room_of_on_vote_next

lemma room_of_init: "room_of init_server roomId = new_room"
  by (simp add: room_of_def init_server_def fst_getRoom)

lemma two_members_room: "room_of two_members ''r'' = new_room\<lparr>participants := [alice, bob]\<rparr>"
  by (simp add: two_members_def room_of_handlers room_of_init join_participants_def findIndex_def
      new_room_def alice_def bob_def)

section \<open>Joining\<close>

lemma findIndex_from_takeWhile:
  "findIndex_from P xs i =
     (if \<exists>x \<in> set xs. P x then int (i + length (takeWhile (\<lambda>x. \<not> P x) xs)) else - 1)"
  by (induction xs arbitrary: i) auto

lemma findIndex_takeWhile:
  "findIndex P xs =
     (if \<exists>x \<in> set xs. P x then int (length (takeWhile (\<lambda>x. \<not> P x) xs)) else - 1)"
  by (simp add: findIndex_def findIndex_from_takeWhile)

lemma takeWhile_stops:
  "\<exists>x \<in> set xs. \<not> Q x \<Longrightarrow> length (takeWhile Q xs) < length xs"
  by (induction xs) auto

lemma join_participants_present:
  assumes "\<exists>q \<in> set ps. p_id q = p_id p"
  shows "join_participants p ps = ps[length (takeWhile (\<lambda>q. p_id q \<noteq> p_id p) ps) := p]"
  using assms by (simp add: join_participants_def findIndex_takeWhile)

lemma join_participants_absent:
  assumes "\<not> (\<exists>q \<in> set ps. p_id q = p_id p)"
  shows "join_participants p ps = ps @ [p]"
  using assms by (simp add: join_participants_def findIndex_takeWhile)

lemma map_p_id_join_present:
  assumes "\<exists>q \<in> set ps. p_id q = p_id p"
  shows "map p_id (join_participants p ps) = map p_id ps"
proof -
  let ?i = "length (takeWhile (\<lambda>q. p_id q \<noteq> p_id p) ps)"
  from assms have lt: "?i < length ps"
    by (intro takeWhile_stops) simp
  have "p_id (ps ! ?i) = p_id p"
    using nth_length_takeWhile[OF lt] by simp
  then have "(map p_id ps)[?i := p_id p] = map p_id ps"
    using lt by (metis list_update_id nth_map)
  then show ?thesis
    using assms by (simp add: join_participants_present map_update)
qed

lemma distinct_join_participants:
  "distinct (map p_id ps) \<Longrightarrow> distinct (map p_id (join_participants p ps))"
  by (cases "\<exists>q \<in> set ps. p_id q = p_id p")
     (auto simp: map_p_id_join_present join_participants_absent)

lemma run_joins_distinct:
  "distinct (map p_id (participants (room_of st roomId))) \<Longrightarrow>
   distinct (map p_id (participants
     (room_of (run (map (\<lambda>(sid, p). RoomJoin sid roomId p) js) st) roomId)))"
proof (induction js arbitrary: st)
  case Nil
  then show ?case by simp
next
  case (Cons j js)
  obtain sid p where j: "j = (sid, p)" by (cases j)
  have "distinct (map p_id (participants (room_of (fst (on_room_join sid roomId p st)) roomId)))"
    using Cons.prems by (simp add: room_of_on_room_join distinct_join_participants)
  from Cons.IH[OF this] show ?case by (simp add: j)
qed

text \<open>
  C9. A join whose participant id is already in the room replaces that entry where it
  stands (the first entry with the id; the length and the order of ids are kept);
  otherwise the participant is appended. So any sequence of join events on one room
  keeps the ids of the participants pairwise distinct, from a room where they are, and
  in particular from the empty registry.
\<close>

theorem join_replaces_in_place_or_appends:
  "((\<exists>q \<in> set (participants (room_of st roomId)). p_id q = p_id p) \<longrightarrow>
      participants (room_of (fst (on_room_join sid roomId p st)) roomId) =
        (participants (room_of st roomId))
          [length (takeWhile (\<lambda>q. p_id q \<noteq> p_id p) (participants (room_of st roomId))) := p]
      \<and> length (takeWhile (\<lambda>q. p_id q \<noteq> p_id p) (participants (room_of st roomId)))
          < length (participants (room_of st roomId))
      \<and> p_id (participants (room_of st roomId) !
                length (takeWhile (\<lambda>q. p_id q \<noteq> p_id p) (participants (room_of st roomId))))
          = p_id p
      \<and> length (participants (room_of (fst (on_room_join sid roomId p st)) roomId)) =
          length (participants (room_of st roomId)))
   \<and> (\<not> (\<exists>q \<in> set (participants (room_of st roomId)). p_id q = p_id p) \<longrightarrow>
      participants (room_of (fst (on_room_join sid roomId p st)) roomId) =
        participants (room_of st roomId) @ [p])
   \<and> (distinct (map p_id (participants (room_of st roomId))) \<longrightarrow>
      distinct (map p_id (participants
        (room_of (run (map (\<lambda>(s, q). RoomJoin s roomId q) js) st) roomId))))
   \<and> distinct (map p_id (participants
        (room_of (run (map (\<lambda>(s, q). RoomJoin s roomId q) js) init_server) roomId)))"
proof -
  let ?ps = "participants (room_of st roomId)"
  let ?i = "length (takeWhile (\<lambda>q. p_id q \<noteq> p_id p) ?ps)"
  have present: "participants (room_of (fst (on_room_join sid roomId p st)) roomId) = ?ps[?i := p]
      \<and> ?i < length ?ps \<and> p_id (?ps ! ?i) = p_id p
      \<and> length (participants (room_of (fst (on_room_join sid roomId p st)) roomId)) = length ?ps"
    if ex: "\<exists>q \<in> set ?ps. p_id q = p_id p"
  proof -
    have lt: "?i < length ?ps" using ex by (intro takeWhile_stops) simp
    have "p_id (?ps ! ?i) = p_id p" using nth_length_takeWhile[OF lt] by simp
    with lt ex show ?thesis
      by (simp add: room_of_on_room_join join_participants_present)
  qed
  have absent: "participants (room_of (fst (on_room_join sid roomId p st)) roomId) = ?ps @ [p]"
    if "\<not> (\<exists>q \<in> set ?ps. p_id q = p_id p)"
    using that by (simp add: room_of_on_room_join join_participants_absent)
  have fresh: "distinct (map p_id (participants (room_of init_server roomId)))"
    by (simp add: room_of_def init_server_def fst_getRoom new_room_def)
  show ?thesis
    using present absent run_joins_distinct[of st roomId js] run_joins_distinct[OF fresh, of js]
    by blast
qed

theorem join_replaces_in_place_or_appends_witness:
  "(\<exists>q \<in> set (participants (room_of two_members ''r'')). p_id q = p_id alice_again)
   \<and> participants (room_of (fst (on_room_join ''s9'' ''r'' alice_again two_members)) ''r'')
       = [alice_again, bob]
   \<and> \<not> (\<exists>q \<in> set (participants (room_of two_members ''r'')). p_id q = p_id carol)
   \<and> participants (room_of (fst (on_room_join ''s3'' ''r'' carol two_members)) ''r'')
       = [alice, bob, carol]
   \<and> distinct (map p_id (participants (room_of two_members ''r'')))
   \<and> distinct (map p_id (participants (room_of
        (run (map (\<lambda>(s, q). RoomJoin s ''r'' q) [(''s9'', alice_again), (''s3'', carol)]) two_members)
        ''r'')))"
  using join_replaces_in_place_or_appends [of two_members "''r''" alice_again "''s9''"
          "[(''s9'', alice_again), (''s3'', carol)]"]
        join_replaces_in_place_or_appends [of two_members "''r''" carol "''s3''" "[]"]
  by (simp add: two_members_room alice_def bob_def carol_def alice_again_def)

section \<open>Leaving\<close>

lemma snd_on_room_leave:
  "snd (on_room_leave sid roomId st) =
     (if truthy (currentRoomId st sid)
      then [Emit (ToOthers sid (the (currentRoomId st sid))) (ParticipantLeft sid)] else [])"
  by (simp add: on_room_leave_def split_beta Let_def)

lemma snd_on_disconnect:
  "snd (on_disconnect sid st) =
     (if truthy (currentRoomId st sid)
      then [Emit (ToOthers sid (the (currentRoomId st sid))) (ParticipantLeft sid)] else [])"
  by (simp add: on_disconnect_def split_beta Let_def)

text \<open>
  What the two handlers do for a connection that is in a room: they keep the participants
  whose id differs from the id of the socket, and announce the id of the socket.
\<close>

lemma leave_filters_on_socket_id:
  assumes "currentRoomId st sid = Some cur" and "cur \<noteq> []"
  shows
    "participants (room_of (fst (on_room_leave sid roomId st)) cur)
        = filter (\<lambda>p. p_id p \<noteq> sid) (participants (room_of st cur))
     \<and> participants (room_of (fst (on_disconnect sid st)) cur)
        = filter (\<lambda>p. p_id p \<noteq> sid) (participants (room_of st cur))
     \<and> sid \<notin> p_id ` set (participants (room_of (fst (on_room_leave sid roomId st)) cur))
     \<and> sid \<notin> p_id ` set (participants (room_of (fst (on_disconnect sid st)) cur))
     \<and> snd (on_room_leave sid roomId st) = [Emit (ToOthers sid cur) (ParticipantLeft sid)]
     \<and> snd (on_disconnect sid st) = [Emit (ToOthers sid cur) (ParticipantLeft sid)]
     \<and> (sid \<notin> p_id ` set (participants (room_of st cur)) \<longrightarrow>
          participants (room_of (fst (on_room_leave sid roomId st)) cur) = participants (room_of st cur)
          \<and> participants (room_of (fst (on_disconnect sid st)) cur) = participants (room_of st cur))"
proof -
  have t: "truthy (currentRoomId st sid)" "the (currentRoomId st sid) = cur"
    using assms by simp_all
  have l: "participants (room_of (fst (on_room_leave sid roomId st)) cur)
             = filter (\<lambda>p. p_id p \<noteq> sid) (participants (room_of st cur))"
    by (simp add: room_of_on_room_leave t remove_participant_def)
  have d: "participants (room_of (fst (on_disconnect sid st)) cur)
             = filter (\<lambda>p. p_id p \<noteq> sid) (participants (room_of st cur))"
    by (simp add: room_of_on_disconnect t remove_participant_def)
  have e: "snd (on_room_leave sid roomId st) = [Emit (ToOthers sid cur) (ParticipantLeft sid)]"
          "snd (on_disconnect sid st) = [Emit (ToOthers sid cur) (ParticipantLeft sid)]"
    by (simp_all add: snd_on_room_leave snd_on_disconnect t)
  have n: "filter (\<lambda>p. p_id p \<noteq> sid) (participants (room_of st cur)) = participants (room_of st cur)"
    if "sid \<notin> p_id ` set (participants (room_of st cur))"
    using that by (auto simp: filter_id_conv)
  show ?thesis
    unfolding l d e using n by auto
qed

lemma two_members_current: "currentRoomId two_members ''s1'' = Some ''r''"
  "currentRoomId two_members ''s2'' = Some ''r''" "currentRoomId two_members ''s3'' = None"
  by (simp_all add: two_members_def on_room_join_def split_beta Let_def init_server_def)

lemma with_dave_room: "room_of with_dave ''r'' = new_room\<lparr>participants := [alice, bob, dave]\<rparr>"
  by (simp add: with_dave_def room_of_handlers two_members_room join_participants_def findIndex_def
      new_room_def alice_def bob_def dave_def)

lemma with_dave_current: "currentRoomId with_dave ''s4'' = Some ''r''"
  by (simp add: with_dave_def on_room_join_def split_beta Let_def)

text \<open>
  C1. A leave, explicit or by the close of the connection, is to remove the participant
  of the leaving connection and announce that participant's id. The handlers look for a
  participant whose id is the id of the socket, while a join stores the participant under
  the id its client chose. Dave joined room \<open>r\<close> through socket \<open>s4\<close> under the id
  \<open>u4\<close>: when \<open>s4\<close> leaves, or its connection closes, Dave is still among the
  participants, and the notification carries \<open>s4\<close>, an id no participant of the room
  has.
\<close>

theorem leave_keeps_participant_of_leaving_connection:
  "participants (room_of with_dave ''r'') = [alice, bob, dave]
   \<and> p_id dave = ''u4''
   \<and> currentRoomId with_dave ''s4'' = Some ''r''
   \<and> ''s4'' \<notin> p_id ` set (participants (room_of with_dave ''r''))
   \<and> participants (room_of (fst (on_room_leave ''s4'' ''r'' with_dave)) ''r'') = [alice, bob, dave]
   \<and> participants (room_of (fst (on_disconnect ''s4'' with_dave)) ''r'') = [alice, bob, dave]
   \<and> snd (on_room_leave ''s4'' ''r'' with_dave) = [Emit (ToOthers ''s4'' ''r'') (ParticipantLeft ''s4'')]
   \<and> snd (on_disconnect ''s4'' with_dave) = [Emit (ToOthers ''s4'' ''r'') (ParticipantLeft ''s4'')]"
  by (simp add: room_of_on_room_leave room_of_on_disconnect snd_on_room_leave snd_on_disconnect
      with_dave_current with_dave_room remove_participant_def alice_def bob_def dave_def)

section \<open>Player actions and the explicit choice of a video\<close>

lemma snd_on_player_action:
  "snd (on_player_action sid roomId act vt now st) =
     [Emit (ToRoom roomId)
        (PlayerSync \<lparr> action = act, videoTime = vt, serverTime = now, initiator = sid \<rparr>)]"
  by (simp add: on_player_action_def split_beta Let_def)

lemma joined_on_player_action: "joined (fst (on_player_action sid roomId act vt now st)) = joined st"
  by (simp add: on_player_action_def split_beta Let_def)

lemma two_members_joined: "joined two_members ''r'' = {''s1'', ''s2''}"
  by (auto simp add: two_members_def on_room_join_def split_beta Let_def init_server_def)

text \<open>
  C7. A reported \<open>play\<close> sets the player state to playing, a \<open>pause\<close> to paused, a
  \<open>seek\<close> leaves it as it was. Every action sets the current time to the reported
  video time and emits exactly one sync event, carrying the action, the video time, the
  clock reading and the sender's socket id, addressed to the whole room: its recipients
  are all sockets that joined the room, none excluded, so the sender too when it is one
  of them (in the scenario, Alice's seek reaches both Alice and Bob).
\<close>

theorem player_action_updates_and_broadcasts:
  "playerState (room_of (fst (on_player_action sid roomId ''play'' vt now st)) roomId) = Playing
   \<and> playerState (room_of (fst (on_player_action sid roomId ''pause'' vt now st)) roomId) = Paused
   \<and> playerState (room_of (fst (on_player_action sid roomId ''seek'' vt now st)) roomId)
       = playerState (room_of st roomId)
   \<and> currentTime (room_of (fst (on_player_action sid roomId act vt now st)) roomId) = vt
   \<and> snd (on_player_action sid roomId act vt now st) =
       [Emit (ToRoom roomId)
          (PlayerSync \<lparr> action = act, videoTime = vt, serverTime = now, initiator = sid \<rparr>)]
   \<and> recipients (joined (fst (on_player_action sid roomId act vt now st))) (ToRoom roomId)
       = joined st roomId
   \<and> recipients (joined (fst (on_player_action ''s1'' ''r'' ''seek'' 42 now two_members))) (ToRoom ''r'')
       = {''s1'', ''s2''}"
  by (simp add: room_of_on_player_action snd_on_player_action joined_on_player_action
      recipients_def two_members_joined)

lemma snd_on_queue_change_video:
  "snd (on_queue_change_video roomId index st) = [Emit (ToRoom roomId) (VideoChanged index)]"
  by (simp add: on_queue_change_video_def split_beta Let_def)

text \<open>
  C10. The change-video handler stores whatever integer index it is given and resets
  the current time to 0, leaving the rest of the room as it was, and broadcasts a
  video-changed event with that index. The index is not compared with the length of the
  queue: with a queue of two videos, the indices -3 and 7 are stored as they are. The
  handler has no failing branch.
\<close>

theorem change_video_sets_any_index:
  "room_of (fst (on_queue_change_video roomId index st)) roomId
      = (room_of st roomId)\<lparr>currentVideoIndex := index, currentTime := 0\<rparr>
   \<and> currentVideoIndex (room_of (fst (on_queue_change_video roomId index st)) roomId) = index
   \<and> currentTime (room_of (fst (on_queue_change_video roomId index st)) roomId) = 0
   \<and> snd (on_queue_change_video roomId index st) = [Emit (ToRoom roomId) (VideoChanged index)]
   \<and> currentVideoIndex (room_of (fst (on_queue_change_video ''r'' (- 3) two_videos)) ''r'') = - 3
   \<and> currentVideoIndex (room_of (fst (on_queue_change_video ''r'' 7 two_videos)) ''r'') = 7"
  by (simp add: room_of_on_queue_change_video snd_on_queue_change_video)

section \<open>Voting for the next video\<close>

lemma set_votes_add: "set (votes_add v vs) = insert v (set vs)"
  by (auto simp: votes_add_def)

lemma distinct_votes_add: "distinct vs \<Longrightarrow> distinct (votes_add v vs)"
  by (simp add: votes_add_def)

lemma length_votes_add: "distinct vs \<Longrightarrow> length (votes_add v vs) = card (insert v (set vs))"
  by (metis distinct_card distinct_votes_add set_votes_add)

lemma votes_add_not_Nil: "votes_add v vs \<noteq> []" "[] \<noteq> votes_add v vs"
  by (auto simp: votes_add_def)

lemma drop_count_small: "a < 2 ^ 53 \<Longrightarrow> drop_count a = 0"
  by (simp add: drop_count.simps)

lemma drop_count_large: "\<not> a < 2 ^ 53 \<Longrightarrow> drop_count a = Suc (drop_count (a div 2))"
  by (subst drop_count.simps) simp

lemma round_double_nat_small: "a < 2 ^ 53 \<Longrightarrow> round_double_nat a = a"
  by (simp add: round_double_nat_def drop_count_small)

lemma round_double_nat_two_53: "round_double_nat (2 ^ 53) = 2 ^ 53"
  by (simp add: round_double_nat_def drop_count_large drop_count_small)

text \<open>Between \<open>-2^53\<close> and \<open>2^53 - 1\<close> the increment is exact.\<close>

lemma js_increment_exact:
  assumes "- (2 ^ 53) \<le> i" and "i < 2 ^ 53"
  shows "js_increment i = i + 1"
proof (cases "i + 1 < 0")
  case True
  then have "nat (- (i + 1)) < 2 ^ 53" using assms by simp
  then show ?thesis using True
    by (simp add: js_increment_def round_double_int_def round_double_nat_small)
next
  case False
  show ?thesis
  proof (cases "i + 1 = 2 ^ 53")
    case True
    then have "nat (i + 1) = 2 ^ 53" by simp
    then show ?thesis using True round_double_nat_two_53
      by (simp add: js_increment_def round_double_int_def)
  next
    case neq: False
    then have "nat (i + 1) < 2 ^ 53" using assms False by simp
    then show ?thesis using False
      by (simp add: js_increment_def round_double_int_def round_double_nat_small)
  qed
qed

text \<open>Below that range it is not: \<open>-(2^53 + 2) + 1\<close> rounds to \<open>-2^53\<close>.\<close>

lemma js_increment_far_below: "js_increment (- 9007199254740994) = - 9007199254740992"
  by (simp add: js_increment_def round_double_int_def round_double_nat_def
      drop_count_large drop_count_small)

lemma vote_next_room_advance:
  assumes "length (votes_add p (votes r)) \<ge> length (participants r)"
      and "currentVideoIndex r < int (length (queue r)) - 1"
  shows "vote_next_room roomId p now r =
     (r\<lparr>currentVideoIndex := js_increment (currentVideoIndex r), currentTime := 0,
        playerState := Playing, votes := []\<rparr>,
      [Emit (ToRoom roomId) (VotesUpdated (votes_add p (votes r))),
       Emit (ToRoom roomId) (VideoChanged (js_increment (currentVideoIndex r))),
       Emit (ToRoom roomId) (VotesUpdated []),
       Emit (ToRoom roomId)
         (PlayerSync \<lparr> action = ''play'', videoTime = 0, serverTime = now,
                       initiator = ''system'' \<rparr>)])"
  using assms by (simp add: vote_next_room_def Let_def)

lemma two_videos_room:
  "room_of two_videos ''r'' = new_room\<lparr>participants := [alice, bob], queue := [video ''v1'', video ''v2'']\<rparr>"
  by (simp add: two_videos_def room_of_handlers two_members_room new_room_def)

lemma far_below_room:
  "room_of far_below ''r'' =
     new_room\<lparr>participants := [alice, bob], queue := [video ''v1'', video ''v2''],
               currentVideoIndex := - 9007199254740994, votes := [''s1'']\<rparr>"
  by (simp add: far_below_def room_of_handlers two_videos_room vote_next_room_def votes_add_def
      new_room_def Let_def)

lemma vote_next_room_end_of_queue:
  assumes "length (votes_add p (votes r)) \<ge> length (participants r)"
      and "\<not> currentVideoIndex r < int (length (queue r)) - 1"
  shows "vote_next_room roomId p now r =
     (r\<lparr>votes := []\<rparr>,
      [Emit (ToRoom roomId) (VotesUpdated (votes_add p (votes r))),
       Emit (ToRoom roomId) (VotesUpdated [])])"
  using assms by (simp add: vote_next_room_def Let_def)

lemma vote_next_room_no_quorum:
  assumes "\<not> length (votes_add p (votes r)) \<ge> length (participants r)"
  shows "vote_next_room roomId p now r =
     (r\<lparr>votes := votes_add p (votes r)\<rparr>,
      [Emit (ToRoom roomId) (VotesUpdated (votes_add p (votes r)))])"
  using assms by (simp add: vote_next_room_def Let_def)

text \<open>
  The index is a JavaScript number, so the increment is double arithmetic. At the index
  \<open>-(2^53 + 2)\<close>, which the change-video event stores like any other, the two votes
  that reach the quorum take the index to \<open>-2^53\<close>, two above and not one, and that is
  the index the video-changed event carries.
\<close>

theorem consensus_advance_far_below_counterexample:
  "currentVideoIndex (room_of far_below ''r'') = - 9007199254740994
   \<and> length (votes_add ''s2'' (votes (room_of far_below ''r'')))
        \<ge> length (participants (room_of far_below ''r''))
   \<and> currentVideoIndex (room_of far_below ''r'') < int (length (queue (room_of far_below ''r''))) - 1
   \<and> currentVideoIndex (room_of (fst (on_vote_next ''r'' (Some ''s2'') 6 far_below)) ''r'')
        = - 9007199254740992
   \<and> currentVideoIndex (room_of (fst (on_vote_next ''r'' (Some ''s2'') 6 far_below)) ''r'')
        \<noteq> currentVideoIndex (room_of far_below ''r'') + 1
   \<and> snd (on_vote_next ''r'' (Some ''s2'') 6 far_below)
        = [Emit (ToRoom ''r'') (VotesUpdated [''s1'', ''s2'']),
           Emit (ToRoom ''r'') (VideoChanged (- 9007199254740992)),
           Emit (ToRoom ''r'') (VotesUpdated []),
           Emit (ToRoom ''r'')
             (PlayerSync \<lparr> action = ''play'', videoTime = 0, serverTime = 6, initiator = ''system'' \<rparr>)]"
  by (simp add: far_below_room room_of_on_vote_next snd_on_vote_next vote_next_room_def Let_def
      votes_add_def new_room_def js_increment_far_below)

text \<open>
  C4, as the code has it. When a vote with a non-empty id reaches the quorum while the
  current index is below the last position of the queue and lies between \<open>-2^53\<close> and
  \<open>2^53 - 1\<close>, where the increment of a double is exact, the room afterwards is the room
  before with the index one higher, the current time 0, the player state playing and no
  votes, and the handler emits to the room, after the broadcast of the votes that reached
  the quorum and in this order: video-changed with the new index, votes-updated with the
  empty list, and a sync event with action play, video time 0, the clock reading and
  initiator \<open>system\<close>.
\<close>

theorem consensus_advances_queue:
  assumes "p \<noteq> []"
      and "length (votes_add p (votes (room_of st roomId))) \<ge> length (participants (room_of st roomId))"
      and "currentVideoIndex (room_of st roomId) < int (length (queue (room_of st roomId))) - 1"
      and "- (2 ^ 53) \<le> currentVideoIndex (room_of st roomId)"
      and "currentVideoIndex (room_of st roomId) < 2 ^ 53"
  shows "room_of (fst (on_vote_next roomId (Some p) now st)) roomId =
           (room_of st roomId)
             \<lparr>currentVideoIndex := currentVideoIndex (room_of st roomId) + 1,
              currentTime := 0, playerState := Playing, votes := []\<rparr>
         \<and> snd (on_vote_next roomId (Some p) now st) =
           [Emit (ToRoom roomId) (VotesUpdated (votes_add p (votes (room_of st roomId)))),
            Emit (ToRoom roomId) (VideoChanged (currentVideoIndex (room_of st roomId) + 1)),
            Emit (ToRoom roomId) (VotesUpdated []),
            Emit (ToRoom roomId)
              (PlayerSync \<lparr> action = ''play'', videoTime = 0, serverTime = now,
                            initiator = ''system'' \<rparr>)]"
  using assms(1-3) js_increment_exact[OF assms(4,5)]
  by (simp add: room_of_on_vote_next snd_on_vote_next vote_next_room_advance)

text \<open>
  C5. When a vote with a non-empty id reaches the quorum while the current index is at
  or beyond the last position of the queue, the room afterwards is the room before with
  no votes, so the index is unchanged, and the handler emits the broadcast of the votes
  that reached the quorum followed by votes-updated with the empty list, and nothing
  else: no video-changed and no sync event.
\<close>

theorem consensus_at_end_of_queue:
  assumes "p \<noteq> []"
      and "length (votes_add p (votes (room_of st roomId))) \<ge> length (participants (room_of st roomId))"
      and "currentVideoIndex (room_of st roomId) \<ge> int (length (queue (room_of st roomId))) - 1"
  shows "room_of (fst (on_vote_next roomId (Some p) now st)) roomId =
           (room_of st roomId)\<lparr>votes := []\<rparr>
         \<and> currentVideoIndex (room_of (fst (on_vote_next roomId (Some p) now st)) roomId)
             = currentVideoIndex (room_of st roomId)
         \<and> snd (on_vote_next roomId (Some p) now st) =
           [Emit (ToRoom roomId) (VotesUpdated (votes_add p (votes (room_of st roomId)))),
            Emit (ToRoom roomId) (VotesUpdated [])]"
  using assms by (simp add: room_of_on_vote_next snd_on_vote_next vote_next_room_end_of_queue)

lemma handle_keeps_votes_distinct:
  assumes "\<And>rid. distinct (votes (room_of st rid))"
  shows "distinct (votes (room_of (fst (handle e st)) rid))"
proof -
  have v: "distinct (votes (fst (vote_next_room roomId p now r)))" if "distinct (votes r)" for roomId p now r
    using that by (simp add: vote_next_room_def Let_def distinct_votes_add)
  show ?thesis
    using assms by (cases e) (simp_all add: room_of_handlers v)
qed

lemma reachable_votes_distinct:
  "distinct (votes (room_of (run es init_server) rid))"
proof -
  have "(\<And>rid. distinct (votes (room_of st rid))) \<Longrightarrow>
        distinct (votes (room_of (run es st) rid))" for st
  proof (induction es arbitrary: st rid)
    case Nil
    then show ?case by simp
  next
    case (Cons e es)
    show ?case
      using Cons.IH[of "fst (handle e st)" rid] handle_keeps_votes_distinct[of st e] Cons.prems
      by simp
  qed
  then show ?thesis by (simp add: room_of_init new_room_def)
qed

text \<open>
  C3. For a vote with a non-empty id, consensus fires (the handler emits votes-updated
  with the empty list, which the broadcast of the votes just cast never is) exactly when
  the number of votes, counted after the insertion of the new one, is at least the number
  of participants the room has at that moment. When it fires the room has no votes
  afterwards, in either branch; when it does not, the votes are the ones before with the
  new one inserted, and only they are broadcast. \<open>votes\<close> is a set, so its
  representation is assumed duplicate-free, as it is in every state the server reaches
  (\<open>reachable_votes_distinct\<close>).
\<close>

theorem quorum_exactness:
  assumes "p \<noteq> []" and "distinct (votes (room_of st roomId))"
  shows "(Emit (ToRoom roomId) (VotesUpdated []) \<in> set (snd (on_vote_next roomId (Some p) now st))
            \<longleftrightarrow> card (insert p (set (votes (room_of st roomId))))
                   \<ge> length (participants (room_of st roomId)))
         \<and> (card (insert p (set (votes (room_of st roomId))))
               \<ge> length (participants (room_of st roomId)) \<longrightarrow>
             votes (room_of (fst (on_vote_next roomId (Some p) now st)) roomId) = [])
         \<and> (card (insert p (set (votes (room_of st roomId))))
               < length (participants (room_of st roomId)) \<longrightarrow>
             votes (room_of (fst (on_vote_next roomId (Some p) now st)) roomId)
               = votes_add p (votes (room_of st roomId))
             \<and> snd (on_vote_next roomId (Some p) now st)
               = [Emit (ToRoom roomId) (VotesUpdated (votes_add p (votes (room_of st roomId))))])"
proof -
  let ?r = "room_of st roomId"
  have len: "length (votes_add p (votes ?r)) = card (insert p (set (votes ?r)))"
    using assms(2) by (rule length_votes_add)
  show ?thesis
  proof (cases "length (votes_add p (votes ?r)) \<ge> length (participants ?r)")
    case True
    then show ?thesis
      using assms(1) len
      by (cases "currentVideoIndex ?r < int (length (queue ?r)) - 1")
         (simp_all add: room_of_on_vote_next snd_on_vote_next vote_next_room_advance
            vote_next_room_end_of_queue)
  next
    case False
    then show ?thesis
      using assms(1) len
      by (simp add: room_of_on_vote_next snd_on_vote_next vote_next_room_no_quorum
          votes_add_not_Nil)
  qed
qed

lemma at_last_video_room:
  "room_of at_last_video ''r'' =
     new_room\<lparr>participants := [alice, bob], queue := [video ''v1'', video ''v2''],
               currentVideoIndex := 1\<rparr>"
  by (simp add: at_last_video_def room_of_handlers two_videos_room new_room_def)

text \<open>Alice has voted; Bob's vote is the second of two.\<close>

lemma alice_voted_room:
  "room_of (fst (on_vote_next ''r'' (Some ''s1'') 5 two_videos)) ''r'' =
     new_room\<lparr>participants := [alice, bob], queue := [video ''v1'', video ''v2''], votes := [''s1'']\<rparr>"
  by (simp add: room_of_on_vote_next two_videos_room vote_next_room_def votes_add_def new_room_def Let_def)

theorem quorum_exactness_witness:
  "''s1'' \<noteq> [] \<and> distinct (votes (room_of two_videos ''r''))
   \<and> card (insert ''s1'' (set (votes (room_of two_videos ''r''))))
        < length (participants (room_of two_videos ''r''))
   \<and> Emit (ToRoom ''r'') (VotesUpdated []) \<notin> set (snd (on_vote_next ''r'' (Some ''s1'') 5 two_videos))
   \<and> votes (room_of (fst (on_vote_next ''r'' (Some ''s1'') 5 two_videos)) ''r'') = [''s1'']
   \<and> ''s2'' \<noteq> [] \<and> distinct (votes (room_of (fst (on_vote_next ''r'' (Some ''s1'') 5 two_videos)) ''r''))
   \<and> card (insert ''s2'' (set (votes (room_of (fst (on_vote_next ''r'' (Some ''s1'') 5 two_videos)) ''r''))))
        \<ge> length (participants (room_of (fst (on_vote_next ''r'' (Some ''s1'') 5 two_videos)) ''r''))
   \<and> Emit (ToRoom ''r'') (VotesUpdated [])
        \<in> set (snd (on_vote_next ''r'' (Some ''s2'') 6 (fst (on_vote_next ''r'' (Some ''s1'') 5 two_videos))))
   \<and> votes (room_of (fst (on_vote_next ''r'' (Some ''s2'') 6
              (fst (on_vote_next ''r'' (Some ''s1'') 5 two_videos)))) ''r'') = []"
  using quorum_exactness [of "''s1''" two_videos "''r''" 5]
        quorum_exactness [of "''s2''" "fst (on_vote_next ''r'' (Some ''s1'') 5 two_videos)" "''r''" 6]
  by (simp add: alice_voted_room two_videos_room new_room_def votes_add_def)

theorem consensus_advances_queue_witness:
  "''s2'' \<noteq> []
   \<and> - (2 ^ 53) \<le> currentVideoIndex (room_of (fst (on_vote_next ''r'' (Some ''s1'') 5 two_videos)) ''r'')
   \<and> currentVideoIndex (room_of (fst (on_vote_next ''r'' (Some ''s1'') 5 two_videos)) ''r'') < 2 ^ 53
   \<and> length (votes_add ''s2'' (votes (room_of (fst (on_vote_next ''r'' (Some ''s1'') 5 two_videos)) ''r'')))
        \<ge> length (participants (room_of (fst (on_vote_next ''r'' (Some ''s1'') 5 two_videos)) ''r''))
   \<and> currentVideoIndex (room_of (fst (on_vote_next ''r'' (Some ''s1'') 5 two_videos)) ''r'')
        < int (length (queue (room_of (fst (on_vote_next ''r'' (Some ''s1'') 5 two_videos)) ''r''))) - 1
   \<and> room_of (fst (on_vote_next ''r'' (Some ''s2'') 6 (fst (on_vote_next ''r'' (Some ''s1'') 5 two_videos)))) ''r''
        = new_room\<lparr>participants := [alice, bob], queue := [video ''v1'', video ''v2''],
                    currentVideoIndex := 1, playerState := Playing\<rparr>
   \<and> snd (on_vote_next ''r'' (Some ''s2'') 6 (fst (on_vote_next ''r'' (Some ''s1'') 5 two_videos)))
        = [Emit (ToRoom ''r'') (VotesUpdated [''s1'', ''s2'']),
           Emit (ToRoom ''r'') (VideoChanged 1),
           Emit (ToRoom ''r'') (VotesUpdated []),
           Emit (ToRoom ''r'')
             (PlayerSync \<lparr> action = ''play'', videoTime = 0, serverTime = 6, initiator = ''system'' \<rparr>)]"
  using consensus_advances_queue [of "''s2''" "fst (on_vote_next ''r'' (Some ''s1'') 5 two_videos)" "''r''" 6]
  by (simp add: alice_voted_room new_room_def votes_add_def)

lemma alice_voted_last_room:
  "room_of (fst (on_vote_next ''r'' (Some ''s1'') 5 at_last_video)) ''r'' =
     new_room\<lparr>participants := [alice, bob], queue := [video ''v1'', video ''v2''],
               currentVideoIndex := 1, votes := [''s1'']\<rparr>"
  by (simp add: room_of_on_vote_next at_last_video_room vote_next_room_def votes_add_def new_room_def Let_def)

theorem consensus_at_end_of_queue_witness:
  "''s2'' \<noteq> []
   \<and> length (votes_add ''s2'' (votes (room_of (fst (on_vote_next ''r'' (Some ''s1'') 5 at_last_video)) ''r'')))
        \<ge> length (participants (room_of (fst (on_vote_next ''r'' (Some ''s1'') 5 at_last_video)) ''r''))
   \<and> currentVideoIndex (room_of (fst (on_vote_next ''r'' (Some ''s1'') 5 at_last_video)) ''r'')
        \<ge> int (length (queue (room_of (fst (on_vote_next ''r'' (Some ''s1'') 5 at_last_video)) ''r''))) - 1
   \<and> room_of (fst (on_vote_next ''r'' (Some ''s2'') 6 (fst (on_vote_next ''r'' (Some ''s1'') 5 at_last_video)))) ''r''
        = new_room\<lparr>participants := [alice, bob], queue := [video ''v1'', video ''v2''],
                    currentVideoIndex := 1\<rparr>
   \<and> snd (on_vote_next ''r'' (Some ''s2'') 6 (fst (on_vote_next ''r'' (Some ''s1'') 5 at_last_video)))
        = [Emit (ToRoom ''r'') (VotesUpdated [''s1'', ''s2'']),
           Emit (ToRoom ''r'') (VotesUpdated [])]"
  using consensus_at_end_of_queue [of "''s2''" "fst (on_vote_next ''r'' (Some ''s1'') 5 at_last_video)" "''r''" 6]
  by (simp add: alice_voted_last_room new_room_def votes_add_def)

section \<open>Whose votes are counted\<close>

text \<open>
  The handler does not look the voter up in the roster. In the room of Alice and Bob,
  with no votes yet, a vote under the id \<open>mallory\<close>, which no participant has, is
  recorded and broadcast.
\<close>

theorem vote_of_non_member_counterexample:
  "''mallory'' \<notin> p_id ` set (participants (room_of two_members ''r''))
   \<and> votes (room_of two_members ''r'') = []
   \<and> votes (room_of (fst (on_vote_next ''r'' (Some ''mallory'') 0 two_members)) ''r'') = [''mallory'']
   \<and> snd (on_vote_next ''r'' (Some ''mallory'') 0 two_members)
        = [Emit (ToRoom ''r'') (VotesUpdated [''mallory''])]"
  by (simp add: room_of_on_vote_next snd_on_vote_next two_members_room vote_next_room_def
      votes_add_def new_room_def alice_def bob_def Let_def)

lemma votes_after_vote_next_room:
  "votes (fst (vote_next_room roomId p now r)) = votes_add p (votes r)
   \<or> votes (fst (vote_next_room roomId p now r)) = []"
  by (simp add: vote_next_room_def Let_def)

lemma hd_snd_vote_next_room:
  "hd (snd (vote_next_room roomId p now r)) = Emit (ToRoom roomId) (VotesUpdated (votes_add p (votes r)))"
  by (simp add: vote_next_room_def Let_def)

text \<open>
  C2, as the code has it. The only vote the handler drops is one whose id is missing or
  empty: it leaves every room as it was and emits nothing. Any other id is inserted into
  the votes, whether or not a participant has it (an id already present is not inserted
  twice), and the resulting list is the first thing broadcast; the votes after the call
  are that list, or empty when consensus fired. So every id in the votes after the call
  is the id just supplied or was among the votes before.
\<close>

theorem vote_next_guards_only_empty_id:
  "(\<not> truthy participantId \<longrightarrow>
      room_of (fst (on_vote_next roomId participantId now st)) rid' = room_of st rid'
      \<and> snd (on_vote_next roomId participantId now st) = [])
   \<and> (truthy participantId \<longrightarrow>
      hd (snd (on_vote_next roomId participantId now st))
        = Emit (ToRoom roomId) (VotesUpdated (votes_add (the participantId) (votes (room_of st roomId))))
      \<and> set (votes_add (the participantId) (votes (room_of st roomId)))
        = insert (the participantId) (set (votes (room_of st roomId)))
      \<and> (votes (room_of (fst (on_vote_next roomId participantId now st)) roomId)
            = votes_add (the participantId) (votes (room_of st roomId))
          \<or> votes (room_of (fst (on_vote_next roomId participantId now st)) roomId) = [])
      \<and> set (votes (room_of (fst (on_vote_next roomId participantId now st)) roomId))
        \<subseteq> insert (the participantId) (set (votes (room_of st roomId))))"
proof -
  have sub: "set (votes (fst (vote_next_room roomId p now r))) \<subseteq> insert p (set (votes r))" for p r
    using votes_after_vote_next_room[of roomId p now r] by (auto simp: set_votes_add)
  show ?thesis
    using votes_after_vote_next_room[of roomId "the participantId" now "room_of st roomId"]
    by (simp add: room_of_on_vote_next snd_on_vote_next hd_snd_vote_next_room set_votes_add sub)
qed

theorem vote_next_guards_only_empty_id_witness:
  "\<not> truthy (Some []) \<and> \<not> truthy None
   \<and> room_of (fst (on_vote_next ''r'' (Some []) 0 two_members)) ''r'' = room_of two_members ''r''
   \<and> snd (on_vote_next ''r'' None 0 two_members) = []
   \<and> truthy (Some ''mallory'')
   \<and> hd (snd (on_vote_next ''r'' (Some ''mallory'') 0 two_members))
        = Emit (ToRoom ''r'') (VotesUpdated [''mallory''])
   \<and> votes (room_of (fst (on_vote_next ''r'' (Some ''mallory'') 0 two_members)) ''r'') = [''mallory'']"
  using vote_next_guards_only_empty_id [of "Some []" "''r''" 0 two_members "''r''"]
        vote_next_guards_only_empty_id [of None "''r''" 0 two_members "''r''"]
        vote_next_guards_only_empty_id [of "Some ''mallory''" "''r''" 0 two_members "''r''"]
  by (simp add: two_members_room votes_add_def new_room_def room_of_on_vote_next vote_next_room_def
      Let_def alice_def bob_def)

section \<open>The chat log\<close>

text \<open>On a log within the bound, a send keeps the last 100 of the log and the new message.\<close>

lemma push_message_bounded:
  "length ms \<le> 100 \<Longrightarrow> push_message m ms = drop (length (ms @ [m]) - 100) (ms @ [m])"
  by (cases ms) (auto simp: push_message_def Let_def Suc_diff_le drop_Cons')

lemma push_message_length: "length ms \<le> 100 \<Longrightarrow> length (push_message m ms) \<le> 100"
  by (auto simp: push_message_def Let_def)

lemma drop_tail_snoc:
  "0 < k \<Longrightarrow> drop (length (drop (length ys - k) ys @ [m]) - k) (drop (length ys - k) ys @ [m])
     = drop (length (ys @ [m]) - k) (ys @ [m])"
  by (cases "length ys \<le> k") (auto simp: Suc_diff_le)

lemma run_append: "run (es @ fs) st = run fs (run es st)"
  by (induction es arbitrary: st) auto

lemma run_chat_sends:
  "length (messages (room_of st roomId)) \<le> 100 \<Longrightarrow>
   messages (room_of (run (map (ChatSend roomId) ms) st) roomId)
     = drop (length (messages (room_of st roomId) @ ms) - 100) (messages (room_of st roomId) @ ms)"
proof (induction ms rule: rev_induct)
  case Nil
  then show ?case by simp
next
  case (snoc m ms)
  let ?old = "messages (room_of st roomId)"
  let ?mid = "run (map (ChatSend roomId) ms) st"
  have mid: "messages (room_of ?mid roomId) = drop (length (?old @ ms) - 100) (?old @ ms)"
    using snoc by simp
  then have le: "length (messages (room_of ?mid roomId)) \<le> 100" by simp
  have "messages (room_of (run (map (ChatSend roomId) (ms @ [m])) st) roomId)
          = push_message m (messages (room_of ?mid roomId))"
    by (simp add: run_append room_of_on_chat_send)
  also have "\<dots> = drop (length (messages (room_of ?mid roomId) @ [m]) - 100)
                     (messages (room_of ?mid roomId) @ [m])"
    using le by (rule push_message_bounded)
  also have "\<dots> = drop (length ((?old @ ms) @ [m]) - 100) ((?old @ ms) @ [m])"
    unfolding mid by (rule drop_tail_snoc) simp
  finally show ?case by simp
qed

lemma unchanged_by_vote_next_room:
  "messages (fst (vote_next_room roomId p now r)) = messages r"
  "participants (fst (vote_next_room roomId p now r)) = participants r"
  "queue (fst (vote_next_room roomId p now r)) = queue r"
  by (simp_all add: vote_next_room_def Let_def)

lemma handle_keeps_chat_bound:
  assumes "\<And>rid. length (messages (room_of st rid)) \<le> 100"
  shows "length (messages (room_of (fst (handle e st)) rid)) \<le> 100"
  using assms
  by (cases e) (simp_all add: room_of_handlers push_message_length unchanged_by_vote_next_room)

lemma reachable_chat_bound:
  "length (messages (room_of (run es init_server) rid)) \<le> 100"
proof -
  have "(\<And>rid. length (messages (room_of st rid)) \<le> 100) \<Longrightarrow>
        length (messages (room_of (run es st) rid)) \<le> 100" for st
  proof (induction es arbitrary: st rid)
    case Nil
    then show ?case by simp
  next
    case (Cons e es)
    show ?case
      using Cons.IH[of "fst (handle e st)" rid] handle_keeps_chat_bound[of st e] Cons.prems
      by simp
  qed
  then show ?thesis by (simp add: room_of_init new_room_def)
qed

text \<open>
  C6. From a room whose log holds at most 100 messages, which is every room the
  server can reach (\<open>reachable_chat_bound\<close>), any sequence of chat sends leaves
  exactly the last 100 messages of the old log followed by the sent ones, in arrival
  order, all of them when there are fewer; so the log never exceeds 100 and the oldest
  messages are the ones evicted. From the empty registry the log is the last 100
  messages sent.
\<close>

theorem chat_keeps_last_hundred:
  assumes "length (messages (room_of st roomId)) \<le> 100"
  shows "messages (room_of (run (map (ChatSend roomId) ms) st) roomId)
           = drop (length (messages (room_of st roomId) @ ms) - 100) (messages (room_of st roomId) @ ms)
         \<and> length (messages (room_of (run (map (ChatSend roomId) ms) st) roomId)) \<le> 100
         \<and> messages (room_of (run (map (ChatSend roomId) ms) init_server) roomId)
           = drop (length ms - 100) ms"
proof -
  have "length (messages (room_of init_server roomId)) \<le> 100"
    by (simp add: room_of_init new_room_def)
  from run_chat_sends[OF this, of ms] run_chat_sends[OF assms, of ms]
  show ?thesis by (simp add: room_of_init new_room_def)
qed

lemma full_chat_room: "room_of full_chat ''r'' = new_room\<lparr>messages := replicate 100 (msg ''old'')\<rparr>"
  by (simp add: full_chat_def room_of_def fst_getRoom init_server_def)

theorem chat_keeps_last_hundred_witness:
  "length (messages (room_of full_chat ''r'')) \<le> 100
   \<and> messages (room_of (run (map (ChatSend ''r'') [msg ''new'', msg ''newer'']) full_chat) ''r'')
       = replicate 98 (msg ''old'') @ [msg ''new'', msg ''newer'']
   \<and> length (messages (room_of (run (map (ChatSend ''r'') [msg ''new'', msg ''newer'']) full_chat) ''r''))
       \<le> 100"
  using chat_keeps_last_hundred [of full_chat "''r''" "[msg ''new'', msg ''newer'']"]
  by (simp add: full_chat_room new_room_def)

section \<open>Reconciliation on the client\<close>

text \<open>
  The clocks count milliseconds and the callback divides their difference by 1000. A
  play event with server time 0 and video time 0, received at local time 1000 by a
  player at position 1, causes no seek although the position is 999 away from
  \<open>0 + 1000\<close>; the same as a seek event seeks to 1, not to 1000; and a player that is
  not ready ignores even a seek event. Every number that occurs here is an integer of
  small magnitude and the one quotient, \<open>1000 / 1000\<close>, is exact, so the runtime's
  arithmetic gives what arithmetic without rounding gives.
\<close>

theorem sync_latency_in_seconds_counterexample:
  "fst (onPlayerSync exact_arith True 1000 1
          \<lparr> r_action = ''play'', r_videoTime = 0, r_serverTime = 0, r_initiator = ''s1'' \<rparr>)
     = [PlayVideo]
   \<and> \<bar>1 - (0 + (1000 - 0))\<bar> > (1::real)
   \<and> fst (onPlayerSync exact_arith True 1000 0
          \<lparr> r_action = ''seek'', r_videoTime = 0, r_serverTime = 0, r_initiator = ''s1'' \<rparr>)
     = [SeekTo 1 True]
   \<and> 0 + (1000 - 0) \<noteq> (1::real)
   \<and> fst (onPlayerSync exact_arith False 1000 0
          \<lparr> r_action = ''seek'', r_videoTime = 0, r_serverTime = 0, r_initiator = ''s1'' \<rparr>)
     = []"
  by (simp add: onPlayerSync_def exact_arith_def Let_def)

text \<open>
  C8, as the code has it. Whatever the arithmetic of the runtime, a ready player that
  receives a sync event with server time \<open>T\<close> and video time \<open>V\<close> when its clock reads
  \<open>now\<close> computes the latency as the difference of the two clocks divided by 1000, and
  the target as the sum of \<open>V\<close> and the latency, each by one operation of that
  arithmetic. It seeks to that target exactly when the action is \<open>seek\<close> or the
  magnitude of the difference of its own position and the target, computed the same
  way, is greater than 1; after that it plays when the action is \<open>play\<close>, pauses when it
  is \<open>pause\<close> and does neither otherwise. A player that is absent or not ready does
  nothing.
\<close>

theorem sync_reconciliation:
  "onPlayerSync ar True now localTime
       \<lparr> r_action = a, r_videoTime = V, r_serverTime = T, r_initiator = i \<rparr>
     = ((if a = ''seek''
            \<or> num_gt ar
                 (num_abs ar
                    (num_sub ar localTime
                       (num_add ar V (num_div ar (num_sub ar now T) (num_lit ar 1000)))))
                 (num_lit ar 1)
         then [SeekTo (num_add ar V (num_div ar (num_sub ar now T) (num_lit ar 1000))) True]
         else [])
        @ (if a = ''play'' then [PlayVideo] else if a = ''pause'' then [PauseVideo] else []),
        (if a = ''play'' then [SET_PLAYER_STATE Playing]
         else if a = ''pause'' then [SET_PLAYER_STATE Paused] else []))
   \<and> onPlayerSync ar False now localTime
       \<lparr> r_action = a, r_videoTime = V, r_serverTime = T, r_initiator = i \<rparr> = ([], [])"
  by (simp add: onPlayerSync_def Let_def)

text \<open>
  An event sent at clock reading 1700000000000 and received 250 milliseconds later, for
  video time 10. The quotient \<open>250 / 1000\<close>, the target \<open>10.25\<close> and the distances
  \<open>1.75\<close> and \<open>0.25\<close> are doubles, so no operation rounds.
\<close>

theorem sync_reconciliation_witness:
  "onPlayerSync exact_arith True 1700000000250 12
       \<lparr> r_action = ''pause'', r_videoTime = 10, r_serverTime = 1700000000000, r_initiator = ''s1'' \<rparr>
     = ([SeekTo (41 / 4) True, PauseVideo], [SET_PLAYER_STATE Paused])
   \<and> onPlayerSync exact_arith True 1700000000250 (21 / 2)
       \<lparr> r_action = ''play'', r_videoTime = 10, r_serverTime = 1700000000000, r_initiator = ''s1'' \<rparr>
     = ([PlayVideo], [SET_PLAYER_STATE Playing])
   \<and> onPlayerSync exact_arith True 1700000000250 (21 / 2)
       \<lparr> r_action = ''seek'', r_videoTime = 10, r_serverTime = 1700000000000, r_initiator = ''s1'' \<rparr>
     = ([SeekTo (41 / 4) True], [])
   \<and> onPlayerSync exact_arith False 1700000000250 12
       \<lparr> r_action = ''seek'', r_videoTime = 10, r_serverTime = 1700000000000, r_initiator = ''s1'' \<rparr>
     = ([], [])"
  using sync_reconciliation [of exact_arith 1700000000250 12 "''pause''" 10 1700000000000 "''s1''"]
        sync_reconciliation [of exact_arith 1700000000250 "21 / 2" "''play''" 10 1700000000000 "''s1''"]
        sync_reconciliation [of exact_arith 1700000000250 "21 / 2" "''seek''" 10 1700000000000 "''s1''"]
        sync_reconciliation [of exact_arith 1700000000250 12 "''seek''" 10 1700000000000 "''s1''"]
  by (simp add: exact_arith_def)

end
